theory Spec2Isabelle
  imports Complex_Main "HOL-Library.Word" "HOL-Library.Signed_Division"
begin

section \<open>The viewport of the map renderer (d2maprenderer/viewport.go)\<close>

text \<open>
  The Viewport converts between world (isometric), orthogonal (camera) and screen (pixel)
  space, keeps a stack of orthogonal translations and a split-screen alignment.

  Numbers. Go's \<open>int\<close> is taken at 64 bits, two's complement: \<open>+\<close>, \<open>-\<close> and \<open>*\<close> on
  \<open>go_int\<close> wrap around, comparisons read the word with \<open>sint\<close>, and \<open>/\<close> truncates
  towards zero. Go's \<open>float64\<close> is idealised as \<open>real\<close>: the model has the formulas of the
  source and none of the rounding, overflow or NaN of IEEE arithmetic. On integers of
  small magnitude, where the concrete evaluations below live, the two agree. The
  theorems below are about what does not turn on the difference: which functions are
  composed, which fields are read and written, which comparisons are made on the results
  of the conversions, and values at inputs where binary64 is exact. The round trips of
  claims C5 and C9 do turn on it and are left without a theorem (see the last section).
\<close>

subsection \<open>Numbers\<close>

type_synonym go_int = "64 word"

text \<open>The conversion \<open>float64(i)\<close> of an \<open>int\<close>.\<close>

definition float64 :: "go_int \<Rightarrow> real" where
  "float64 i = real_of_int (sint i)"

text \<open>\<open>math.Floor\<close>: the greatest integral value not above the argument, still a float.\<close>

definition math_Floor :: "real \<Rightarrow> real" where
  "math_Floor r = real_of_int \<lfloor>r\<rfloor>"

text \<open>
  The conversion \<open>int(f)\<close> of a float: the fraction is discarded (truncation towards
  zero). Go leaves the result to the implementation when the value does not fit the
  type; the model wraps it into 64 bits.
\<close>

definition go_int_of :: "real \<Rightarrow> go_int" where
  "go_int_of r = word_of_int (if 0 \<le> r then \<lfloor>r\<rfloor> else \<lceil>r\<rceil>)"

text \<open>
  The quotient \<open>a / b\<close> of two \<open>int\<close>s, truncated towards zero. The only divisor in
  the source is the literal 2, so the run-time panic of a zero divisor has no branch here.
\<close>

definition go_quot :: "go_int \<Rightarrow> go_int \<Rightarrow> go_int" where
  "go_quot a b = word_of_int (sint a sdiv sint b)"

subsection \<open>Data\<close>

text \<open>
  Modelled from the spec: the type \<open>d2common.Rectangle\<close> is declared outside this file;
  the spec gives it the integer fields \<open>left, top, width, height\<close> and the derived
  \<open>right = left + width\<close>, \<open>bottom = top + height\<close>.
\<close>

record Rectangle =
  Left :: go_int
  Top :: go_int
  Width :: go_int
  Height :: go_int

definition Right :: "Rectangle \<Rightarrow> go_int" where
  "Right r = Left r + Width r"

definition Bottom :: "Rectangle \<Rightarrow> go_int" where
  "Bottom r = Top r + Height r"

text \<open>
  The struct \<open>worldTrans\<close>; its fields \<open>x\<close> and \<open>y\<close> are written \<open>trans_x\<close> and
  \<open>trans_y\<close>, leaving \<open>x\<close> and \<open>y\<close> free for variables.
\<close>

record worldTrans =
  trans_x :: real
  trans_y :: real

text \<open>The alignment constants.\<close>

definition center :: go_int where "center = 0"
definition left :: go_int where "left = 1"
definition right :: go_int where "right = 2"

text \<open>
  Modelled from the spec: the type \<open>Camera\<close> is declared outside this file; the spec
  gives it one capability, the query of its position as two reals. The field \<open>camera\<close>
  holds \<open>None\<close> for the nil pointer and \<open>Some\<close> of the position that
  \<open>GetPosition\<close> returns otherwise.
\<close>

type_synonym Camera = "real \<times> real"

definition GetPosition :: "Camera \<Rightarrow> real \<times> real" where
  "GetPosition c = c"

record Viewport =
  defaultScreenRect :: Rectangle
  screenRect :: Rectangle
  transStack :: "worldTrans list"
  transCurrent :: worldTrans
  camera :: "Camera option"
  align :: go_int

text \<open>The one failure of the source: \<open>panic("empty stack")\<close>.\<close>

datatype error = Panic string

subsection \<open>Construction and camera\<close>

text \<open>The fields that the composite literal leaves out have Go's zero values.\<close>

definition NewViewport :: "go_int \<Rightarrow> go_int \<Rightarrow> go_int \<Rightarrow> go_int \<Rightarrow> Viewport" where
  "NewViewport x y width height =
     \<lparr>defaultScreenRect = \<lparr>Left = x, Top = y, Width = width, Height = height\<rparr>,
      screenRect = \<lparr>Left = x, Top = y, Width = width, Height = height\<rparr>,
      transStack = [],
      transCurrent = \<lparr>trans_x = 0, trans_y = 0\<rparr>,
      camera = None,
      align = 0\<rparr>"

definition SetCamera :: "Viewport \<Rightarrow> Camera option \<Rightarrow> Viewport" where
  "SetCamera v c = v\<lparr>camera := c\<rparr>"

subsection \<open>Conversions\<close>

definition getCameraOffset :: "Viewport \<Rightarrow> real \<times> real" where
  "getCameraOffset v =
     (case (case camera v of None \<Rightarrow> (0, 0) | Some c \<Rightarrow> GetPosition c) of
        (camX, camY) \<Rightarrow>
          (camX - float64 (go_quot (Width (screenRect v)) 2),
           camY - float64 (go_quot (Height (screenRect v)) 2)))"

definition OrthoToWorld :: "Viewport \<Rightarrow> real \<Rightarrow> real \<Rightarrow> real \<times> real" where
  "OrthoToWorld v x y = ((x / 80 + y / 40) / 2, (y / 40 - x / 80) / 2)"

definition WorldToOrtho :: "Viewport \<Rightarrow> real \<Rightarrow> real \<Rightarrow> real \<times> real" where
  "WorldToOrtho v x y = ((x - y) * 80, (x + y) * 40)"

definition ScreenToOrtho :: "Viewport \<Rightarrow> go_int \<Rightarrow> go_int \<Rightarrow> real \<times> real" where
  "ScreenToOrtho v x y =
     (case getCameraOffset v of
        (camX, camY) \<Rightarrow>
          (float64 x + camX - float64 (Left (screenRect v)),
           float64 y + camY - float64 (Top (screenRect v))))"

definition OrthoToScreen :: "Viewport \<Rightarrow> real \<Rightarrow> real \<Rightarrow> go_int \<times> go_int" where
  "OrthoToScreen v x y =
     (case getCameraOffset v of
        (camOrthoX, camOrthoY) \<Rightarrow>
          (go_int_of (math_Floor (x - camOrthoX + float64 (Left (screenRect v)))),
           go_int_of (math_Floor (y - camOrthoY + float64 (Top (screenRect v))))))"

definition OrthoToScreenF :: "Viewport \<Rightarrow> real \<Rightarrow> real \<Rightarrow> real \<times> real" where
  "OrthoToScreenF v x y =
     (case getCameraOffset v of
        (camOrthoX, camOrthoY) \<Rightarrow>
          (x - camOrthoX + float64 (Left (screenRect v)),
           y - camOrthoY + float64 (Top (screenRect v))))"

definition WorldToScreen :: "Viewport \<Rightarrow> real \<Rightarrow> real \<Rightarrow> go_int \<times> go_int" where
  "WorldToScreen v x y = (case WorldToOrtho v x y of (ox, oy) \<Rightarrow> OrthoToScreen v ox oy)"

definition WorldToScreenF :: "Viewport \<Rightarrow> real \<Rightarrow> real \<Rightarrow> real \<times> real" where
  "WorldToScreenF v x y = (case WorldToOrtho v x y of (ox, oy) \<Rightarrow> OrthoToScreenF v ox oy)"

definition ScreenToWorld :: "Viewport \<Rightarrow> go_int \<Rightarrow> go_int \<Rightarrow> real \<times> real" where
  "ScreenToWorld v x y = (case ScreenToOrtho v x y of (ox, oy) \<Rightarrow> OrthoToWorld v ox oy)"

subsection \<open>Visibility\<close>

definition IsOrthoRectVisible :: "Viewport \<Rightarrow> real \<Rightarrow> real \<Rightarrow> real \<Rightarrow> real \<Rightarrow> bool" where
  "IsOrthoRectVisible v x1 y1 x2 y2 =
     (case OrthoToScreen v x1 y1 of
        (screenX1, screenY1) \<Rightarrow>
          (case OrthoToScreen v x2 y2 of
             (screenX2, screenY2) \<Rightarrow>
               \<not> (sint (Width (defaultScreenRect v)) \<le> sint screenX1 \<or> sint screenX2 < 0 \<or>
                  sint (Height (defaultScreenRect v)) \<le> sint screenY1 \<or> sint screenY2 < 0)))"

definition IsTileVisible :: "Viewport \<Rightarrow> real \<Rightarrow> real \<Rightarrow> bool" where
  "IsTileVisible v x y =
     (case WorldToOrtho v (x - 3) y of
        (orthoX1, orthoY1) \<Rightarrow>
          (case WorldToOrtho v (x + 3) y of
             (orthoX2, orthoY2) \<Rightarrow> IsOrthoRectVisible v orthoX1 orthoY1 orthoX2 orthoY2))"

definition IsTileRectVisible :: "Viewport \<Rightarrow> Rectangle \<Rightarrow> bool" where
  "IsTileRectVisible v rect =
     IsOrthoRectVisible v
       (float64 ((Left rect - Bottom rect) * 80))
       (float64 ((Left rect + Top rect) * 40))
       (float64 ((Right rect - Top rect) * 80))
       (float64 ((Right rect + Bottom rect) * 40))"

subsection \<open>The translation stack\<close>

text \<open>The slice \<open>transStack\<close> is a list whose last element is the top: \<open>append\<close> adds there.\<close>

definition GetTranslationOrtho :: "Viewport \<Rightarrow> real \<times> real" where
  "GetTranslationOrtho v = (trans_x (transCurrent v), trans_y (transCurrent v))"

definition GetTranslationScreen :: "Viewport \<Rightarrow> go_int \<times> go_int" where
  "GetTranslationScreen v = OrthoToScreen v (trans_x (transCurrent v)) (trans_y (transCurrent v))"

definition PushTranslationOrtho :: "Viewport \<Rightarrow> real \<Rightarrow> real \<Rightarrow> Viewport" where
  "PushTranslationOrtho v x y =
     v\<lparr>transStack := transStack v @ [transCurrent v],
       transCurrent := \<lparr>trans_x = trans_x (transCurrent v) + x,
                        trans_y = trans_y (transCurrent v) + y\<rparr>\<rparr>"

definition PushTranslationWorld :: "Viewport \<Rightarrow> real \<Rightarrow> real \<Rightarrow> Viewport" where
  "PushTranslationWorld v x y =
     (case WorldToOrtho v x y of (ox, oy) \<Rightarrow> PushTranslationOrtho v ox oy)"

definition PushTranslationScreen :: "Viewport \<Rightarrow> go_int \<Rightarrow> go_int \<Rightarrow> Viewport" where
  "PushTranslationScreen v x y =
     (case ScreenToOrtho v x y of (ox, oy) \<Rightarrow> PushTranslationOrtho v ox oy)"

definition PopTranslation :: "Viewport \<Rightarrow> error + Viewport" where
  "PopTranslation v =
     (if length (transStack v) = 0 then Inl (Panic ''empty stack'')
      else Inr (v\<lparr>transCurrent := transStack v ! (length (transStack v) - 1),
                 transStack := take (length (transStack v) - 1) (transStack v)\<rparr>))"

text \<open>
  A run of \<open>PushTranslationOrtho\<close> calls, one for each pair of arguments in turn, and a
  run of \<open>n\<close> \<open>PopTranslation\<close> calls, which stops at the first panic.
\<close>

fun push_all :: "Viewport \<Rightarrow> (real \<times> real) list \<Rightarrow> Viewport" where
  "push_all v [] = v"
| "push_all v (p # ps) = push_all (PushTranslationOrtho v (fst p) (snd p)) ps"

fun pop_times :: "nat \<Rightarrow> Viewport \<Rightarrow> error + Viewport" where
  "pop_times 0 v = Inr v"
| "pop_times (Suc n) v =
     (case PopTranslation v of Inl e \<Rightarrow> Inl e | Inr v' \<Rightarrow> pop_times n v')"

subsection \<open>Alignment\<close>

definition toLeft :: "Viewport \<Rightarrow> Viewport" where
  "toLeft v =
     (if align v = left then v
      else v\<lparr>screenRect := (screenRect v)
                \<lparr>Width := go_quot (Width (defaultScreenRect v)) 2,
                 Left := Left (defaultScreenRect v) + go_quot (Width (defaultScreenRect v)) 2\<rparr>,
             align := left\<rparr>)"

definition toRight :: "Viewport \<Rightarrow> Viewport" where
  "toRight v =
     (if align v = right then v
      else v\<lparr>screenRect := (screenRect v)\<lparr>Width := go_quot (Width (defaultScreenRect v)) 2\<rparr>,
             align := right\<rparr>)"

definition resetAlign :: "Viewport \<Rightarrow> Viewport" where
  "resetAlign v =
     (if align v = center then v
      else v\<lparr>screenRect := (screenRect v)
                \<lparr>Width := Width (defaultScreenRect v),
                 Left := Left (defaultScreenRect v)\<rparr>,
             align := center\<rparr>)"

text \<open>The alignment transitions, and a run of them from left to right.\<close>

datatype transition = ToLeft | ToRight | ResetAlign

fun step :: "transition \<Rightarrow> Viewport \<Rightarrow> Viewport" where
  "step ToLeft v = toLeft v"
| "step ToRight v = toRight v"
| "step ResetAlign v = resetAlign v"

fun run :: "transition list \<Rightarrow> Viewport \<Rightarrow> Viewport" where
  "run [] v = v"
| "run (t # ts) v = run ts (step t v)"

text \<open>
  What the alignment transitions keep, from construction on: the mode is one of the
  three, top and height are the default's, the width is the default's or its half, and
  \<open>Left\<close> is the default's in center mode and shifted by half the default width in
  left mode. In right mode \<open>Left\<close> is what it was before the transition: the
  default's, or the shifted one.
\<close>

definition align_inv :: "Viewport \<Rightarrow> bool" where
  "align_inv v =
     ((align v = center \<or> align v = left \<or> align v = right) \<and>
      Top (screenRect v) = Top (defaultScreenRect v) \<and>
      Height (screenRect v) = Height (defaultScreenRect v) \<and>
      Width (screenRect v) =
        (if align v = center then Width (defaultScreenRect v)
         else go_quot (Width (defaultScreenRect v)) 2) \<and>
      (if align v = center then Left (screenRect v) = Left (defaultScreenRect v)
       else if align v = left then
         Left (screenRect v) =
           Left (defaultScreenRect v) + go_quot (Width (defaultScreenRect v)) 2
       else Left (screenRect v) = Left (defaultScreenRect v) \<or>
         Left (screenRect v) =
           Left (defaultScreenRect v) + go_quot (Width (defaultScreenRect v)) 2))"

text \<open>The integers that a 64-bit \<open>int\<close> holds.\<close>

definition fits_int :: "int \<Rightarrow> bool" where
  "fits_int k = (- (2 ^ 63) \<le> k \<and> k < 2 ^ 63)"

section \<open>Auxiliary facts\<close>

subsection \<open>Numbers\<close>

lemmas eval_defs = NewViewport_def getCameraOffset_def GetPosition_def OrthoToScreen_def
  OrthoToScreenF_def ScreenToOrtho_def IsOrthoRectVisible_def toLeft_def toRight_def
  resetAlign_def center_def left_def right_def go_quot_def signed_divide_int_def float64_def

lemma floor_minus_1: "\<lfloor>- 1 :: real\<rfloor> = - 1"
  using floor_of_int [of "- 1", where ?'a = real] by simp

text \<open>Truncation after \<open>math.Floor\<close> has nothing left to discard: the result is the floor.\<close>

lemma go_int_of_math_Floor: "go_int_of (math_Floor r) = word_of_int \<lfloor>r\<rfloor>"
  by (simp add: go_int_of_def math_Floor_def)

lemma fits_int_sint: "fits_int (sint (w :: go_int))"
  using sint_ge [of w] sint_lt [of w] by (simp add: fits_int_def)

lemma sint_word_of_int_fits: "fits_int k \<Longrightarrow> sint (word_of_int k :: go_int) = k"
  by (simp add: fits_int_def sint_sbintrunc' signed_take_bit_int_eq_self)

lemma sdiv_2_bounds:
  fixes k :: int
  assumes "- (2 ^ 63) \<le> k" "k < 2 ^ 63"
  shows "- (2 ^ 63) \<le> k sdiv 2" "k sdiv 2 < 2 ^ 63"
  using assms by (auto simp: signed_divide_int_def sgn_if)

text \<open>Halving never overflows: the quotient read back is the truncated quotient.\<close>

lemma sint_go_quot_2: "sint (go_quot w 2) = sint w sdiv 2"
proof -
  have "fits_int (sint w sdiv 2)"
    using fits_int_sint [of w] sdiv_2_bounds [of "sint w"] by (simp add: fits_int_def)
  then show ?thesis by (simp add: go_quot_def sint_word_of_int_fits)
qed

lemma float64_go_quot_2: "float64 (go_quot w 2) = real_of_int (sint w sdiv 2)"
  unfolding float64_def by (simp only: sint_go_quot_2)

lemma sint_pred:
  fixes w :: go_int
  assumes "0 < sint w"
  shows "sint (w - 1) = sint w - 1"
proof -
  have hi: "sint w < 2 ^ 63" using sint_lt [of w] by simp
  have "sint (w - 1) = signed_take_bit 63 (sint w - 1)"
    by (simp add: sint_word_diff)
  also have "\<dots> = sint w - 1"
    using assms hi by (simp add: signed_take_bit_int_eq_self)
  finally show ?thesis .
qed

subsection \<open>Visibility\<close>

lemma IsOrthoRectVisible_iff:
  "IsOrthoRectVisible v x1 y1 x2 y2 \<longleftrightarrow>
     sint (fst (OrthoToScreen v x1 y1)) < sint (Width (defaultScreenRect v)) \<and>
     0 \<le> sint (fst (OrthoToScreen v x2 y2)) \<and>
     sint (snd (OrthoToScreen v x1 y1)) < sint (Height (defaultScreenRect v)) \<and>
     0 \<le> sint (snd (OrthoToScreen v x2 y2))"
  by (auto simp: IsOrthoRectVisible_def split: prod.splits)

subsection \<open>The translation stack\<close>

lemma pop_push: "PopTranslation (PushTranslationOrtho v x y) = Inr v"
  by (simp add: PopTranslation_def PushTranslationOrtho_def)

lemma push_all_snoc:
  "push_all v (ps @ [p]) = PushTranslationOrtho (push_all v ps) (fst p) (snd p)"
  by (induction ps arbitrary: v) simp_all

lemma pop_times_push_all: "pop_times (length ps) (push_all v ps) = Inr v"
proof (induction ps rule: rev_induct)
  case Nil
  show ?case by simp
next
  case (snoc p ps)
  show ?case using snoc.IH by (simp add: push_all_snoc pop_push)
qed

lemma pop_times_Suc:
  "pop_times (Suc n) v =
     (case pop_times n v of Inl e \<Rightarrow> Inl e | Inr v' \<Rightarrow> PopTranslation v')"
proof (induction n arbitrary: v)
  case 0
  show ?case by (simp split: sum.splits)
next
  case (Suc n)
  show ?case
  proof (cases "PopTranslation v")
    case (Inl e)
    then show ?thesis by simp
  next
    case (Inr v')
    have "pop_times (Suc (Suc n)) v = pop_times (Suc n) v'"
      using Inr by simp
    also have "\<dots> = (case pop_times n v' of Inl e \<Rightarrow> Inl e | Inr u \<Rightarrow> PopTranslation u)"
      by (rule Suc.IH)
    also have "\<dots> = (case pop_times (Suc n) v of Inl e \<Rightarrow> Inl e | Inr u \<Rightarrow> PopTranslation u)"
      using Inr by simp
    finally show ?thesis .
  qed
qed

subsection \<open>Alignment\<close>

lemma toLeft_idem: "toLeft (toLeft v) = toLeft v"
  by (simp add: toLeft_def)

lemma toRight_idem: "toRight (toRight v) = toRight v"
  by (simp add: toRight_def)

lemma resetAlign_idem: "resetAlign (resetAlign v) = resetAlign v"
  by (simp add: resetAlign_def)

lemma defaultScreenRect_step: "defaultScreenRect (step t v) = defaultScreenRect v"
  by (cases t) (simp_all add: toLeft_def toRight_def resetAlign_def)

lemma defaultScreenRect_run: "defaultScreenRect (run ts v) = defaultScreenRect v"
  by (induction ts arbitrary: v) (simp_all add: defaultScreenRect_step)

lemma align_inv_new: "align_inv (NewViewport x y w h)"
  by (simp add: align_inv_def NewViewport_def center_def)

lemma align_inv_step: "align_inv v \<Longrightarrow> align_inv (step t v)"
  by (cases t) (auto simp: align_inv_def toLeft_def toRight_def resetAlign_def
      center_def left_def right_def)

lemma align_inv_run: "align_inv v \<Longrightarrow> align_inv (run ts v)"
  by (induction ts arbitrary: v) (simp_all add: align_inv_step)

text \<open>
  \<open>toRight\<close> writes the width and the mode and nothing else: \<open>Left\<close> stays what it
  was. \<open>toLeft\<close> and \<open>resetAlign\<close> both write \<open>Left\<close>.
\<close>

lemma toRight_keeps_Left: "Left (screenRect (toRight v)) = Left (screenRect v)"
  by (simp add: toRight_def)

lemma alignment_800_600:
  assumes "v = run ts (NewViewport 0 0 800 600)"
  shows "screenRect (toLeft v) = \<lparr>Left = 400, Top = 0, Width = 400, Height = 600\<rparr>"
    and "screenRect (resetAlign v) = \<lparr>Left = 0, Top = 0, Width = 800, Height = 600\<rparr>"
    and "Width (screenRect (toRight v)) = 400"
    and "align v \<noteq> left \<Longrightarrow> align v \<noteq> right \<Longrightarrow>
      screenRect (toRight v) = \<lparr>Left = 0, Top = 0, Width = 400, Height = 600\<rparr>"
proof -
  have d: "defaultScreenRect v = \<lparr>Left = 0, Top = 0, Width = 800, Height = 600\<rparr>"
    unfolding assms by (simp add: defaultScreenRect_run NewViewport_def)
  have i: "align_inv v"
    unfolding assms by (rule align_inv_run [OF align_inv_new])
  have q: "go_quot 800 2 = 400" by (simp add: go_quot_def signed_divide_int_def)
  obtain l t w h where s: "screenRect v = \<lparr>Left = l, Top = t, Width = w, Height = h\<rparr>"
    by (cases "screenRect v") simp
  from i d s q show "screenRect (toLeft v) = \<lparr>Left = 400, Top = 0, Width = 400, Height = 600\<rparr>"
    by (auto simp: align_inv_def toLeft_def center_def left_def right_def split: if_splits)
  from i d s q show "screenRect (resetAlign v) = \<lparr>Left = 0, Top = 0, Width = 800, Height = 600\<rparr>"
    by (auto simp: align_inv_def resetAlign_def center_def left_def right_def split: if_splits)
  from i d s q show "Width (screenRect (toRight v)) = 400"
    by (auto simp: align_inv_def toRight_def center_def left_def right_def split: if_splits)
  from i d s q show "align v \<noteq> left \<Longrightarrow> align v \<noteq> right \<Longrightarrow>
      screenRect (toRight v) = \<lparr>Left = 0, Top = 0, Width = 400, Height = 600\<rparr>"
    by (auto simp: align_inv_def toRight_def center_def left_def right_def split: if_splits)
qed

section \<open>The claims\<close>

subsection \<open>Composite conversions\<close>

text \<open>
  Claim C6. For every viewport and all inputs, \<open>WorldToScreen (x, y)\<close> is
  \<open>OrthoToScreen\<close> applied to \<open>WorldToOrtho (x, y)\<close>, \<open>WorldToScreenF (x, y)\<close> is
  \<open>OrthoToScreenF\<close> applied to \<open>WorldToOrtho (x, y)\<close>, and \<open>ScreenToWorld (i, j)\<close> is
  \<open>OrthoToWorld\<close> applied to \<open>ScreenToOrtho (i, j)\<close>: the conversions between world and
  screen space are the compositions and have no formula of their own.
\<close>

theorem C6_world_screen_compositions:
  "WorldToScreen v x y =
     OrthoToScreen v (fst (WorldToOrtho v x y)) (snd (WorldToOrtho v x y))
   \<and> WorldToScreenF v x y =
     OrthoToScreenF v (fst (WorldToOrtho v x y)) (snd (WorldToOrtho v x y))
   \<and> ScreenToWorld v i j =
     OrthoToWorld v (fst (ScreenToOrtho v i j)) (snd (ScreenToOrtho v i j))"
  by (simp add: WorldToScreen_def WorldToScreenF_def ScreenToWorld_def split: prod.splits)

text \<open>With no camera on an 800 by 600 screen the tile \<open>(1, 1)\<close> is drawn at \<open>(400, 380)\<close>.\<close>

theorem C6_world_screen_compositions_witness:
  "WorldToScreen (NewViewport 0 0 800 600) 1 1 = (400, 380)
   \<and> WorldToScreenF (NewViewport 0 0 800 600) 1 1 = (400, 380)
   \<and> ScreenToWorld (NewViewport 0 0 800 600) 400 380 = (1, 1)"
  using C6_world_screen_compositions [of "NewViewport 0 0 800 600" 1 1 400 380]
  by (simp add: eval_defs go_int_of_math_Floor WorldToOrtho_def OrthoToWorld_def)

subsection \<open>The translation stack\<close>

text \<open>
  Claim C4. For every viewport and every run of N \<open>PushTranslationOrtho\<close> calls, whatever
  their arguments, followed by N \<open>PopTranslation\<close> calls, no call panics and
  \<open>GetTranslationOrtho\<close> returns afterwards what it returned before the run.
  \<open>PopTranslation\<close> on an empty stack panics and returns no viewport; so does one more
  pop after a balanced run that started on an empty stack.
\<close>

theorem C4_push_pop_balance:
  "(\<exists>v'. pop_times (length ps) (push_all v ps) = Inr v'
          \<and> GetTranslationOrtho v' = GetTranslationOrtho v)
   \<and> (transStack v = [] \<longrightarrow> PopTranslation v = Inl (Panic ''empty stack''))
   \<and> (transStack v = [] \<longrightarrow>
        pop_times (Suc (length ps)) (push_all v ps) = Inl (Panic ''empty stack''))"
  by (simp add: pop_times_Suc pop_times_push_all PopTranslation_def del: pop_times.simps)

theorem C4_push_pop_balance_witness:
  "transStack (NewViewport 0 0 800 600) = []
   \<and> PopTranslation (NewViewport 0 0 800 600) = Inl (Panic ''empty stack'')
   \<and> pop_times 3 (push_all (NewViewport 0 0 800 600) [(1, 2), (3, 4)])
       = Inl (Panic ''empty stack'')
   \<and> (\<exists>v'. pop_times 2 (push_all (NewViewport 0 0 800 600) [(1, 2), (3, 4)]) = Inr v'
          \<and> GetTranslationOrtho v' = (0, 0))"
proof -
  have e: "transStack (NewViewport 0 0 800 600) = []"
    by (simp add: NewViewport_def)
  have g: "GetTranslationOrtho (NewViewport 0 0 800 600) = (0, 0)"
    by (simp add: NewViewport_def GetTranslationOrtho_def)
  have n: "length [(1 :: real, 2 :: real), (3, 4)] = 2" "Suc 2 = (3 :: nat)"
    by simp_all
  show ?thesis
    using C4_push_pop_balance [of "[(1, 2), (3, 4)]" "NewViewport 0 0 800 600"] e
    unfolding n g by blast
qed

subsection \<open>Translations and the conversions\<close>

text \<open>
  Claim C10. Two viewports that differ only in \<open>transStack\<close> and \<open>transCurrent\<close> give
  the same results in every conversion (\<open>WorldToScreen\<close>, \<open>WorldToScreenF\<close>,
  \<open>ScreenToWorld\<close>, \<open>OrthoToScreen\<close>, \<open>OrthoToScreenF\<close>, \<open>ScreenToOrtho\<close>,
  \<open>WorldToOrtho\<close>, \<open>OrthoToWorld\<close>) and in every visibility test (\<open>IsTileVisible\<close>,
  \<open>IsTileRectVisible\<close>, \<open>IsOrthoRectVisible\<close>): the translations that were pushed show
  only in \<open>GetTranslationOrtho\<close> and \<open>GetTranslationScreen\<close>.
\<close>

theorem C10_translations_not_in_conversions:
  "WorldToScreen (v\<lparr>transStack := ts, transCurrent := tc\<rparr>) x y = WorldToScreen v x y
   \<and> WorldToScreenF (v\<lparr>transStack := ts, transCurrent := tc\<rparr>) x y = WorldToScreenF v x y
   \<and> ScreenToWorld (v\<lparr>transStack := ts, transCurrent := tc\<rparr>) i j = ScreenToWorld v i j
   \<and> OrthoToScreen (v\<lparr>transStack := ts, transCurrent := tc\<rparr>) x y = OrthoToScreen v x y
   \<and> OrthoToScreenF (v\<lparr>transStack := ts, transCurrent := tc\<rparr>) x y = OrthoToScreenF v x y
   \<and> ScreenToOrtho (v\<lparr>transStack := ts, transCurrent := tc\<rparr>) i j = ScreenToOrtho v i j
   \<and> WorldToOrtho (v\<lparr>transStack := ts, transCurrent := tc\<rparr>) x y = WorldToOrtho v x y
   \<and> OrthoToWorld (v\<lparr>transStack := ts, transCurrent := tc\<rparr>) x y = OrthoToWorld v x y
   \<and> IsTileVisible (v\<lparr>transStack := ts, transCurrent := tc\<rparr>) x y = IsTileVisible v x y
   \<and> IsTileRectVisible (v\<lparr>transStack := ts, transCurrent := tc\<rparr>) r = IsTileRectVisible v r
   \<and> IsOrthoRectVisible (v\<lparr>transStack := ts, transCurrent := tc\<rparr>) x1 y1 x2 y2
       = IsOrthoRectVisible v x1 y1 x2 y2"
  by (simp add: WorldToScreen_def WorldToScreenF_def ScreenToWorld_def OrthoToScreen_def
      OrthoToScreenF_def ScreenToOrtho_def WorldToOrtho_def OrthoToWorld_def IsTileVisible_def
      IsTileRectVisible_def IsOrthoRectVisible_def getCameraOffset_def)

text \<open>
  A push is such a change: after \<open>PushTranslationOrtho (5, 7)\<close> the ortho point
  \<open>(0, 80)\<close> is still drawn at \<open>(400, 380)\<close> and still visible, while
  \<open>GetTranslationOrtho\<close> has moved.
\<close>

theorem C10_translations_not_in_conversions_witness:
  "OrthoToScreen (PushTranslationOrtho (NewViewport 0 0 800 600) 5 7) 0 80 = (400, 380)
   \<and> IsOrthoRectVisible (PushTranslationOrtho (NewViewport 0 0 800 600) 5 7) 0 80 0 80 = True
   \<and> GetTranslationOrtho (PushTranslationOrtho (NewViewport 0 0 800 600) 5 7) = (5, 7)
   \<and> GetTranslationOrtho (NewViewport 0 0 800 600) = (0, 0)"
proof -
  let ?v = "NewViewport 0 0 800 600"
  have p: "PushTranslationOrtho ?v 5 7 =
      ?v\<lparr>transStack := [\<lparr>trans_x = 0, trans_y = 0\<rparr>],
         transCurrent := \<lparr>trans_x = 5, trans_y = 7\<rparr>\<rparr>"
    by (simp add: PushTranslationOrtho_def NewViewport_def)
  have a: "OrthoToScreen ?v 0 80 = (400, 380)"
    by (simp add: eval_defs go_int_of_math_Floor)
  have b: "IsOrthoRectVisible ?v 0 80 0 80 = True"
    by (simp add: eval_defs go_int_of_math_Floor)
  have c: "GetTranslationOrtho (PushTranslationOrtho ?v 5 7) = (5, 7)"
    "GetTranslationOrtho ?v = (0, 0)"
    by (simp_all add: GetTranslationOrtho_def PushTranslationOrtho_def NewViewport_def)
  show ?thesis
    using C10_translations_not_in_conversions
      [where v = "NewViewport 0 0 800 600" and ts = "[\<lparr>trans_x = 0, trans_y = 0\<rparr>]"
         and tc = "\<lparr>trans_x = 5, trans_y = 7\<rparr>" and x = 0 and y = 80 and i = 0 and j = 0
         and r = "\<lparr>Left = 0, Top = 0, Width = 0, Height = 0\<rparr>"
         and ?x1.0 = 0 and ?y1.0 = 80 and ?x2.0 = 0 and ?y2.0 = 80]
    unfolding p [symmetric] a b c by simp
qed

subsection \<open>The camera offset\<close>

text \<open>
  Claim C8. The camera offset that every conversion between ortho and screen space uses
  is \<open>(camX - screenRect.Width / 2, camY - screenRect.Height / 2)\<close>, where
  \<open>(camX, camY)\<close> is the position of the camera, or \<open>(0, 0)\<close> with no camera; the
  halving is integer division, truncated towards zero; the rectangle is the current
  \<open>screenRect\<close>, and \<open>defaultScreenRect\<close> plays no part. With no camera and
  \<open>screenRect = {0, 0, 800, 600}\<close> the offset is \<open>(-400, -300)\<close> and
  \<open>OrthoToScreen (0, 80)\<close> is \<open>(400, 380)\<close>.
\<close>

theorem C8_camera_offset:
  "getCameraOffset v =
     ((case camera v of None \<Rightarrow> 0 | Some c \<Rightarrow> fst (GetPosition c))
        - real_of_int (sint (Width (screenRect v)) sdiv 2),
      (case camera v of None \<Rightarrow> 0 | Some c \<Rightarrow> snd (GetPosition c))
        - real_of_int (sint (Height (screenRect v)) sdiv 2))
   \<and> getCameraOffset (v\<lparr>defaultScreenRect := d\<rparr>) = getCameraOffset v
   \<and> OrthoToScreenF v x y =
       (x - fst (getCameraOffset v) + float64 (Left (screenRect v)),
        y - snd (getCameraOffset v) + float64 (Top (screenRect v)))
   \<and> OrthoToScreen v x y =
       (go_int_of (math_Floor (x - fst (getCameraOffset v) + float64 (Left (screenRect v)))),
        go_int_of (math_Floor (y - snd (getCameraOffset v) + float64 (Top (screenRect v)))))
   \<and> ScreenToOrtho v i j =
       (float64 i + fst (getCameraOffset v) - float64 (Left (screenRect v)),
        float64 j + snd (getCameraOffset v) - float64 (Top (screenRect v)))
   \<and> getCameraOffset
        (v\<lparr>camera := None, screenRect := \<lparr>Left = 0, Top = 0, Width = 800, Height = 600\<rparr>\<rparr>)
       = (- 400, - 300)
   \<and> OrthoToScreen
        (v\<lparr>camera := None, screenRect := \<lparr>Left = 0, Top = 0, Width = 800, Height = 600\<rparr>\<rparr>) 0 80
       = (400, 380)"
proof (intro conjI)
  show "getCameraOffset v =
     ((case camera v of None \<Rightarrow> 0 | Some c \<Rightarrow> fst (GetPosition c))
        - real_of_int (sint (Width (screenRect v)) sdiv 2),
      (case camera v of None \<Rightarrow> 0 | Some c \<Rightarrow> snd (GetPosition c))
        - real_of_int (sint (Height (screenRect v)) sdiv 2))"
    by (simp add: getCameraOffset_def float64_go_quot_2 split: option.splits prod.splits)
qed (simp_all add: eval_defs go_int_of_math_Floor split: prod.splits)

text \<open>
  A camera at \<open>(100, 50)\<close>; the halved rectangle of left mode; an odd negative width,
  where truncation and flooring differ; and the example of the claim.
\<close>

theorem C8_camera_offset_witness:
  "getCameraOffset (SetCamera (NewViewport 0 0 800 600) (Some (100, 50))) = (- 300, - 250)
   \<and> getCameraOffset (toLeft (NewViewport 0 0 800 600)) = (- 200, - 300)
   \<and> getCameraOffset (NewViewport 0 0 (- 801) 601) = (400, - 300)
   \<and> getCameraOffset (NewViewport 0 0 800 600) = (- 400, - 300)
   \<and> OrthoToScreen (NewViewport 0 0 800 600) 0 80 = (400, 380)"
proof -
  have n: "NewViewport 0 0 800 600 =
      (NewViewport 0 0 800 600)
        \<lparr>camera := None, screenRect := \<lparr>Left = 0, Top = 0, Width = 800, Height = 600\<rparr>\<rparr>"
    by (simp add: NewViewport_def)
  have "getCameraOffset (NewViewport 0 0 800 600) = (- 400, - 300)
      \<and> OrthoToScreen (NewViewport 0 0 800 600) 0 80 = (400, 380)"
    using C8_camera_offset [where v = "NewViewport 0 0 800 600"] unfolding n [symmetric] by blast
  moreover
  have "getCameraOffset (SetCamera (NewViewport 0 0 800 600) (Some (100, 50))) = (- 300, - 250)"
    "getCameraOffset (toLeft (NewViewport 0 0 800 600)) = (- 200, - 300)"
    "getCameraOffset (NewViewport 0 0 (- 801) 601) = (400, - 300)"
    by (simp_all add: eval_defs SetCamera_def)
  ultimately show ?thesis by blast
qed

subsection \<open>Visibility\<close>

text \<open>
  Claim C7, as amended. For every viewport, \<open>IsOrthoRectVisible (x1, y1, x2, y2)\<close>
  converts both corners with \<open>OrthoToScreen\<close> and returns false if and only if
  \<open>screenX1 \<ge> defaultScreenRect.Width\<close>, or \<open>screenX2 < 0\<close>, or
  \<open>screenY1 \<ge> defaultScreenRect.Height\<close>, or \<open>screenY2 < 0\<close>. A point whose screen
  coordinates are \<open>(defaultScreenRect.Width, 0)\<close> is not visible. Where the default
  width and height are positive, a point whose screen coordinates are
  \<open>(defaultScreenRect.Width - 1, 0)\<close> is visible.
\<close>

theorem C7_visibility_half_open:
  "((IsOrthoRectVisible v x1 y1 x2 y2 = False) =
      (sint (Width (defaultScreenRect v)) \<le> sint (fst (OrthoToScreen v x1 y1)) \<or>
       sint (fst (OrthoToScreen v x2 y2)) < 0 \<or>
       sint (Height (defaultScreenRect v)) \<le> sint (snd (OrthoToScreen v x1 y1)) \<or>
       sint (snd (OrthoToScreen v x2 y2)) < 0))
   \<and> (OrthoToScreen v x y = (Width (defaultScreenRect v), 0) \<longrightarrow>
        IsOrthoRectVisible v x y x y = False)
   \<and> (0 < sint (Width (defaultScreenRect v)) \<and> 0 < sint (Height (defaultScreenRect v)) \<and>
      OrthoToScreen v x' y' = (Width (defaultScreenRect v) - 1, 0) \<longrightarrow>
        IsOrthoRectVisible v x' y' x' y' = True)"
proof (intro conjI impI)
  show "(IsOrthoRectVisible v x1 y1 x2 y2 = False) =
      (sint (Width (defaultScreenRect v)) \<le> sint (fst (OrthoToScreen v x1 y1)) \<or>
       sint (fst (OrthoToScreen v x2 y2)) < 0 \<or>
       sint (Height (defaultScreenRect v)) \<le> sint (snd (OrthoToScreen v x1 y1)) \<or>
       sint (snd (OrthoToScreen v x2 y2)) < 0)"
    by (auto simp: IsOrthoRectVisible_iff)
next
  assume "OrthoToScreen v x y = (Width (defaultScreenRect v), 0)"
  then show "IsOrthoRectVisible v x y x y = False"
    by (simp add: IsOrthoRectVisible_iff)
next
  assume h: "0 < sint (Width (defaultScreenRect v)) \<and> 0 < sint (Height (defaultScreenRect v)) \<and>
      OrthoToScreen v x' y' = (Width (defaultScreenRect v) - 1, 0)"
  then have "sint (Width (defaultScreenRect v) - 1) = sint (Width (defaultScreenRect v)) - 1"
    by (simp add: sint_pred)
  with h show "IsOrthoRectVisible v x' y' x' y' = True"
    by (simp add: IsOrthoRectVisible_iff)
qed

text \<open>
  On an 800 by 600 screen with no camera the ortho point \<open>(400, -300)\<close> has the screen
  coordinates \<open>(800, 0)\<close> and is not visible; \<open>(399, -300)\<close> has \<open>(799, 0)\<close> and is.
\<close>

theorem C7_visibility_half_open_witness:
  "OrthoToScreen (NewViewport 0 0 800 600) 400 (- 300) = (800, 0)
   \<and> IsOrthoRectVisible (NewViewport 0 0 800 600) 400 (- 300) 400 (- 300) = False
   \<and> 0 < sint (Width (defaultScreenRect (NewViewport 0 0 800 600)))
   \<and> 0 < sint (Height (defaultScreenRect (NewViewport 0 0 800 600)))
   \<and> OrthoToScreen (NewViewport 0 0 800 600) 399 (- 300) = (799, 0)
   \<and> IsOrthoRectVisible (NewViewport 0 0 800 600) 399 (- 300) 399 (- 300) = True"
proof -
  let ?v = "NewViewport 0 0 800 600"
  have a: "OrthoToScreen ?v 400 (- 300) = (Width (defaultScreenRect ?v), 0)"
    by (simp add: eval_defs go_int_of_math_Floor)
  have b: "OrthoToScreen ?v 399 (- 300) = (Width (defaultScreenRect ?v) - 1, 0)"
    by (simp add: eval_defs go_int_of_math_Floor)
  have c: "0 < sint (Width (defaultScreenRect ?v))" "0 < sint (Height (defaultScreenRect ?v))"
    by (simp_all add: NewViewport_def)
  have w: "Width (defaultScreenRect ?v) = 800"
    by (simp add: NewViewport_def)
  from C7_visibility_half_open
    [where v = ?v and x = 400 and y = "- 300" and x' = 399 and y' = "- 300"] a b c
  have "IsOrthoRectVisible ?v 400 (- 300) 400 (- 300) = False"
    and "IsOrthoRectVisible ?v 399 (- 300) 399 (- 300) = True"
    by blast+
  with a b c w show ?thesis by simp
qed

text \<open>
  The claim as it was stated, for every viewport, fails where the default rectangle is
  empty: with width and height 0 and no camera, the ortho point \<open>(-1, 0)\<close> has the screen
  coordinates \<open>(defaultScreenRect.Width - 1, 0) = (-1, 0)\<close> and is not visible.
\<close>

theorem C7_empty_viewport_counterexample:
  "OrthoToScreen (NewViewport 0 0 0 0) (- 1) 0
     = (Width (defaultScreenRect (NewViewport 0 0 0 0)) - 1, 0)
   \<and> IsOrthoRectVisible (NewViewport 0 0 0 0) (- 1) 0 (- 1) 0 = False"
  by (simp add: eval_defs go_int_of_math_Floor floor_minus_1)

text \<open>
  Claim C1, as amended. \<open>IsOrthoRectVisible\<close> tests the screen coordinates of the two
  corners against the width and height of \<open>defaultScreenRect\<close>, which \<open>toLeft\<close>,
  \<open>toRight\<close> and \<open>resetAlign\<close> leave as they are: the bounds of the test do not depend
  on the alignment. The screen coordinates are those of \<open>OrthoToScreen\<close> in the new
  mode, computed from the current \<open>screenRect\<close>.
\<close>

theorem C1_culling_bounds_are_default:
  "defaultScreenRect (step t v) = defaultScreenRect v
   \<and> IsOrthoRectVisible (step t v) x1 y1 x2 y2 =
       (sint (fst (OrthoToScreen (step t v) x1 y1)) < sint (Width (defaultScreenRect v)) \<and>
        0 \<le> sint (fst (OrthoToScreen (step t v) x2 y2)) \<and>
        sint (snd (OrthoToScreen (step t v) x1 y1)) < sint (Height (defaultScreenRect v)) \<and>
        0 \<le> sint (snd (OrthoToScreen (step t v) x2 y2)))"
  by (simp add: IsOrthoRectVisible_iff defaultScreenRect_step)

text \<open>
  In right mode on an 800 by 600 screen the ortho point \<open>(400, 0)\<close> is drawn at
  \<open>(600, 300)\<close>, inside the default bounds.
\<close>

theorem C1_culling_bounds_are_default_witness:
  "defaultScreenRect (toRight (NewViewport 0 0 800 600))
     = \<lparr>Left = 0, Top = 0, Width = 800, Height = 600\<rparr>
   \<and> OrthoToScreen (toRight (NewViewport 0 0 800 600)) 400 0 = (600, 300)
   \<and> IsOrthoRectVisible (toRight (NewViewport 0 0 800 600)) 400 0 400 0 = True"
proof -
  let ?v = "NewViewport 0 0 800 600"
  have d: "defaultScreenRect ?v = \<lparr>Left = 0, Top = 0, Width = 800, Height = 600\<rparr>"
    by (simp add: NewViewport_def)
  have s: "OrthoToScreen (toRight ?v) 400 0 = (600, 300)"
    by (simp add: eval_defs go_int_of_math_Floor)
  show ?thesis
    using C1_culling_bounds_are_default
      [where t = ToRight and v = ?v and ?x1.0 = 400 and ?y1.0 = 0 and ?x2.0 = 400 and ?y2.0 = 0]
    unfolding step.simps d s by simp
qed

text \<open>
  The claim as it was stated, that the answer does not depend on the alignment, fails: on
  an 800 by 600 screen with no camera the ortho point \<open>(400, 0)\<close> is not visible in
  center mode (it is drawn at x = 800) and visible in right mode (drawn at x = 600). The
  two viewports differ in \<open>align\<close> and the width of \<open>screenRect\<close> alone.
\<close>

theorem C1_alignment_changes_culling_counterexample:
  "toRight (NewViewport 0 0 800 600) =
     (NewViewport 0 0 800 600)
       \<lparr>screenRect := \<lparr>Left = 0, Top = 0, Width = 400, Height = 600\<rparr>, align := right\<rparr>
   \<and> IsOrthoRectVisible (NewViewport 0 0 800 600) 400 0 400 0 = False
   \<and> IsOrthoRectVisible (toRight (NewViewport 0 0 800 600)) 400 0 400 0 = True"
  by (simp add: eval_defs go_int_of_math_Floor)

subsection \<open>Alignment\<close>

text \<open>
  Claim C2 says that in every viewport reached from construction by \<open>toLeft\<close>,
  \<open>toRight\<close> and \<open>resetAlign\<close>, \<open>screenRect\<close> is a function of \<open>defaultScreenRect\<close>
  and the mode, with \<open>screenRect.Left = defaultScreenRect.Left\<close> in right mode. The
  code does otherwise: \<open>toRight\<close> never writes \<open>Left\<close>. From
  \<open>NewViewport (0, 0, 800, 600)\<close>, \<open>toLeft\<close> and then \<open>toRight\<close> reach right mode with
  \<open>screenRect.Left = 400\<close>, while \<open>defaultScreenRect.Left = 0\<close>; \<open>toRight\<close> alone
  reaches right mode with \<open>screenRect.Left = 0\<close>.
\<close>

theorem C2_right_mode_after_left_mode:
  "align (run [ToLeft, ToRight] (NewViewport 0 0 800 600)) = right
   \<and> defaultScreenRect (run [ToLeft, ToRight] (NewViewport 0 0 800 600))
       = \<lparr>Left = 0, Top = 0, Width = 800, Height = 600\<rparr>
   \<and> screenRect (run [ToLeft, ToRight] (NewViewport 0 0 800 600))
       = \<lparr>Left = 400, Top = 0, Width = 400, Height = 600\<rparr>
   \<and> align (run [ToRight] (NewViewport 0 0 800 600)) = right
   \<and> defaultScreenRect (run [ToRight] (NewViewport 0 0 800 600))
       = \<lparr>Left = 0, Top = 0, Width = 800, Height = 600\<rparr>
   \<and> screenRect (run [ToRight] (NewViewport 0 0 800 600))
       = \<lparr>Left = 0, Top = 0, Width = 400, Height = 600\<rparr>"
  by (simp add: eval_defs)

text \<open>
  Claim C3 says that for a viewport whose \<open>defaultScreenRect\<close> is
  \<open>{0, 0, 800, 600}\<close>, entering right mode yields \<open>screenRect {left: 0, width: 400}\<close>.
  The code does otherwise when the viewport is in left mode: \<open>toRight\<close> after \<open>toLeft\<close>
  yields \<open>{left: 400, width: 400}\<close>. (The other parts of the claim hold in every
  viewport reached from \<open>NewViewport (0, 0, 800, 600)\<close>: see \<open>alignment_800_600\<close> and
  the three idempotence lemmas.)
\<close>

theorem C3_right_mode_from_left_mode:
  "defaultScreenRect (toLeft (NewViewport 0 0 800 600))
     = \<lparr>Left = 0, Top = 0, Width = 800, Height = 600\<rparr>
   \<and> align (toLeft (NewViewport 0 0 800 600)) = left
   \<and> screenRect (toLeft (NewViewport 0 0 800 600))
     = \<lparr>Left = 400, Top = 0, Width = 400, Height = 600\<rparr>
   \<and> screenRect (toRight (toLeft (NewViewport 0 0 800 600)))
     = \<lparr>Left = 400, Top = 0, Width = 400, Height = 600\<rparr>"
  by (simp add: eval_defs)

section \<open>Round trips through floating point\<close>

text \<open>
  Claims C5 and C9 are about round trips through \<open>float64\<close> arithmetic: from world to
  ortho space and back, and between ortho and screen space. In binary64 every operation
  rounds, and the code has these round trips only up to rounding:
  \<^item> \<open>OrthoToWorld\<close> after \<open>WorldToOrtho\<close> at \<open>(0.1, 0.2)\<close> returns
    \<open>(0.10000000000000002, 0.2)\<close>, and \<open>WorldToOrtho\<close> after \<open>OrthoToWorld\<close> at
    \<open>(1, 1)\<close> returns \<open>(1.0000000000000002, 1)\<close>;
  \<^item> on an 800 by 600 screen with the camera at \<open>(1000.1, 700.3)\<close>, \<open>OrthoToScreenF\<close>
    after \<open>ScreenToOrtho\<close> at the pixel \<open>(424, 0)\<close> returns \<open>(423.9999999999999, 0)\<close>,
    which the flooring \<open>OrthoToScreen\<close> turns into the pixel \<open>(423, 0)\<close>.
  Over the reals of this theory no operation rounds and both round trips would be exact
  identities, which the code does not have; the tolerance within which the code has them
  is a property of binary64 rounding, which this theory does not model. Neither claim is
  given a theorem here. For claim C9 there is also the matter of types: \<open>ScreenToOrtho\<close>
  takes integer pixels, so it composes with the flooring \<open>OrthoToScreen\<close> and not with
  \<open>OrthoToScreenF\<close>.
\<close>

end
